theory Spec2Isabelle
  imports Complex_Main
begin

section \<open>Errors raised by the modelled code\<close>

text \<open>
  A JavaScript exception is a value: \<open>TypeError\<close> is what the runtime raises when a
  property of \<open>undefined\<close> is read, \<open>undefined\<close> is spread or a non-function is
  called; \<open>Error msg\<close> is a \<^verbatim>\<open>throw new Error(msg)\<close> of the source;
  \<open>SyntaxError\<close> is what the \<open>Function\<close> constructor raises on a text that is no
  function.
\<close>

datatype error = TypeError | Error string | SyntaxError

section \<open>StreamingDynamicImageVolume\<close>

text \<open>
  The detail object of the \<^verbatim>\<open>DYNAMIC_VOLUME_TIME_POINT_INDEX_CHANGED\<close> event, and the
  events dispatched on the event target.
\<close>

record timePointDetail =
  detailVolumeId :: string
  imageIdGroupIndex :: int
  numImageIdGroups :: int
  detailSplittingTag :: string

datatype volumeEvent = DYNAMIC_VOLUME_TIME_POINT_INDEX_CHANGED timePointDetail

text \<open>
  The fields of the class. \<open>voxelTimePoint\<close> is the time point held by the
  voxel manager of the base class, \<open>invalidated\<close> the flag of the base class and
  \<open>dispatched\<close> the events triggered so far, oldest first.
\<close>

record volume =
  volumeId :: string
  timePointIndex :: int
  splittingTag :: string
  imageIdGroups :: "string list list"
  numTimePoints :: int
  voxelTimePoint :: int
  invalidated :: bool
  dispatched :: "volumeEvent list"

text \<open>The constructor: the index starts at 0, the count is the number of groups.\<close>

definition newVolume :: "string \<Rightarrow> string \<Rightarrow> string list list \<Rightarrow> volume" where
  "newVolume vid tag groups =
     \<lparr>volumeId = vid, timePointIndex = 0, splittingTag = tag, imageIdGroups = groups,
      numTimePoints = int (length groups), voxelTimePoint = 0, invalidated = False,
      dispatched = []\<rparr>"

text \<open>
  Modelled from the spec: \<open>invalidateVolume\<close> of the base class
  BaseStreamingImageVolume, which is not among the sources: it marks the derived
  volume-level aggregate state invalid, a dirty flag read by the renderer.
\<close>

definition invalidateVolume :: "volume \<Rightarrow> volume" where
  "invalidateVolume v = v\<lparr>invalidated := True\<rparr>"

text \<open>\<open>triggerEvent\<close> appends the event to those dispatched.\<close>

definition triggerEvent :: "volumeEvent \<Rightarrow> volume \<Rightarrow> volume" where
  "triggerEvent e v = v\<lparr>dispatched := dispatched v @ [e]\<rparr>"

text \<open>
  The setter of \<open>timePointIndex\<close>: it returns at once when the index does not change;
  otherwise it stores the index, passes it to the voxel manager, invalidates the volume
  and triggers the event.
\<close>

definition setTimePointIndex :: "int \<Rightarrow> volume \<Rightarrow> volume" where
  "setTimePointIndex index v =
     (if timePointIndex v = index then v
      else
        let v1 = v\<lparr>timePointIndex := index\<rparr>;
            v2 = v1\<lparr>voxelTimePoint := index\<rparr>;
            v3 = invalidateVolume v2
        in triggerEvent
             (DYNAMIC_VOLUME_TIME_POINT_INDEX_CHANGED
                \<lparr>detailVolumeId = volumeId v3, imageIdGroupIndex = index,
                 numImageIdGroups = numTimePoints v3,
                 detailSplittingTag = splittingTag v3\<rparr>) v3)"

text \<open>\<open>scroll\<close>: one corrective wrap, then the setter.\<close>

definition scroll :: "int \<Rightarrow> volume \<Rightarrow> volume" where
  "scroll delta v =
     (let newIndex = timePointIndex v + delta in
      if newIndex < 0 then setTimePointIndex (numTimePoints v - 1) v
      else if newIndex \<ge> numTimePoints v then setTimePointIndex 0 v
      else setTimePointIndex newIndex v)"

text \<open>
  Reading \<open>imageIdGroups[i]\<close>: outside the array the value is \<open>undefined\<close>, and
  spreading it raises a TypeError.
\<close>

definition groupAt :: "'a list list \<Rightarrow> int \<Rightarrow> 'a list option" where
  "groupAt groups i =
     (if 0 \<le> i \<and> i < int (length groups) then Some (groups ! nat i) else None)"

text \<open>
  The while loop of \<open>_getImageIdsToLoad\<close>: each round pushes the group at
  \<open>leftIndex\<close> (and decrements it) when \<open>leftIndex >= 0\<close>, then the group at
  \<open>rightIndex\<close> (and increments it) when \<open>rightIndex < imageIdGroups.length\<close>.
\<close>

function ringLoop :: "'a list list \<Rightarrow> int \<Rightarrow> int \<Rightarrow> 'a list \<Rightarrow> error + 'a list" where
  "ringLoop groups leftIndex rightIndex imageIds =
     (if leftIndex \<ge> 0 \<or> rightIndex < int (length groups) then
        (if leftIndex \<ge> 0 then
           (case groupAt groups leftIndex of
              None \<Rightarrow> Inl TypeError
            | Some gl \<Rightarrow>
                (if rightIndex < int (length groups) then
                   (case groupAt groups rightIndex of
                      None \<Rightarrow> Inl TypeError
                    | Some gr \<Rightarrow>
                        ringLoop groups (leftIndex - 1) (rightIndex + 1) ((imageIds @ gl) @ gr))
                 else ringLoop groups (leftIndex - 1) rightIndex (imageIds @ gl)))
         else
           (case groupAt groups rightIndex of
              None \<Rightarrow> Inl TypeError
            | Some gr \<Rightarrow> ringLoop groups leftIndex (rightIndex + 1) (imageIds @ gr)))
      else Inr imageIds)"
  by pat_completeness auto
termination
  by (relation "measure (\<lambda>(groups, l, r, ids). nat (l + 1) + nat (int (length groups) - r))")
     auto

declare ringLoop.simps [simp del]

text \<open>
  \<open>_getImageIdsToLoad\<close>, on the group list and the current index: a copy of the
  current group, then the loop from the two neighbours.
\<close>

definition getImageIdsToLoadOf :: "'a list list \<Rightarrow> int \<Rightarrow> error + 'a list" where
  "getImageIdsToLoadOf groups initialImageIdGroupIndex =
     (case groupAt groups initialImageIdGroupIndex of
        None \<Rightarrow> Inl TypeError
      | Some g \<Rightarrow>
          ringLoop groups (initialImageIdGroupIndex - 1) (initialImageIdGroupIndex + 1) g)"

definition getImageIdsToLoad :: "volume \<Rightarrow> error + string list" where
  "getImageIdsToLoad v = getImageIdsToLoadOf (imageIdGroups v) (timePointIndex v)"

subsection \<open>The order the specification describes\<close>

text \<open>
  The specification's words: one element from the left list, one from the right list,
  and so on; when one list is exhausted, the rest of the other follows in order.
\<close>

fun alternate :: "'a list \<Rightarrow> 'a list \<Rightarrow> 'a list" where
  "alternate [] ys = ys"
| "alternate (x # xs) [] = x # xs"
| "alternate (x # xs) (y # ys) = x # y # alternate xs ys"

text \<open>
  The expanding ring over \<open>n\<close> groups around \<open>c\<close>: the current group, then the
  groups to the left (nearest first) alternating with those to the right (nearest first).
\<close>

definition expandingRing :: "nat \<Rightarrow> nat \<Rightarrow> nat list" where
  "expandingRing n c = c # alternate (rev [0..<c]) [Suc c..<n]"

definition idsInOrder :: "'a list list \<Rightarrow> nat list \<Rightarrow> 'a list" where
  "idsInOrder groups order = concat (map (\<lambda>i. groups ! i) order)"

section \<open>The image loader module\<close>

subsection \<open>Data\<close>

text \<open>
  A function stored on a load object by a loader is named by a label; calling it is
  recorded in the field \<open>called\<close> of the world, so that what was invoked, and in
  which order, can be read back.
\<close>

type_synonym hook = string

record imageLoaderOptions =
  priority :: int
  requestType :: string
  loaderDetails :: "(string \<times> string) list option"
  ignoreCache :: "bool option"

text \<open>The default value of the \<open>options\<close> parameter of the load functions.\<close>

definition defaultOptions :: imageLoaderOptions where
  "defaultOptions =
     \<lparr>priority = 0, requestType = ''prefetch'', loaderDetails = None, ignoreCache = None\<rparr>"

definition orDefault :: "imageLoaderOptions option \<Rightarrow> imageLoaderOptions" where
  "orDefault options = (case options of None \<Rightarrow> defaultOptions | Some opts \<Rightarrow> opts)"

text \<open>
  The load object a loader returns: the promise, named by its index in the table of
  promises, and the two optional function properties that the module calls,
  \<open>cancelFn\<close> (in \<open>cancelLoadImage\<close>) and \<open>cancel\<close> (in \<open>cancelLoadAll\<close>).
\<close>

record imageLoadObject =
  promise :: nat
  cancelFn :: "hook option"
  cancel :: "hook option"

text \<open>
  A registered loader is external code. Each call of it starts one fetch: it is logged
  and returns a load object with a new pending promise, carrying the functions this loader
  supplies. A loader is also a function object: \<open>functionProperties\<close> tells, for a
  property name, what reading that name on the function object (its prototype chain
  included) leads to: \<open>None\<close> when the read gives \<open>undefined\<close>, otherwise the error
  that the module raises when it uses the value read as a loader. This matters only when
  the loader is registered under the name \<open>__proto__\<close>.
\<close>

record imageLoader =
  loaderName :: string
  suppliedCancelFn :: "hook option"
  suppliedCancel :: "hook option"
  functionProperties :: "string \<Rightarrow> error option"

text \<open>
  What reading \<open>imageLoaders[scheme]\<close> gives when it is not \<open>undefined\<close>: a loader, or
  a value that is no loader, with the error raised when the module calls it and reads
  the \<open>promise\<close> of what it returns.
\<close>

datatype found = Loader imageLoader | NotALoader error

text \<open>Typed arrays live in a store; a pixel buffer is referred to by its address.\<close>

datatype typedArrayKind =
  Uint8Array | Float32Array | Uint16Array | Int16Array | OtherTypedArray string nat

fun kindName :: "typedArrayKind \<Rightarrow> string" where
  "kindName Uint8Array = ''Uint8Array''"
| "kindName Float32Array = ''Float32Array''"
| "kindName Uint16Array = ''Uint16Array''"
| "kindName Int16Array = ''Int16Array''"
| "kindName (OtherTypedArray name bytes) = name"

fun bytesPerElement :: "typedArrayKind \<Rightarrow> nat" where
  "bytesPerElement Uint8Array = 1"
| "bytesPerElement Float32Array = 4"
| "bytesPerElement Uint16Array = 2"
| "bytesPerElement Int16Array = 2"
| "bytesPerElement (OtherTypedArray name bytes) = bytes"

record typedArray =
  kind :: typedArrayKind
  elements :: "int list"

record voxelManager =
  vmHeight :: nat
  vmWidth :: nat
  vmNumComps :: nat
  vmScalarData :: nat

record imageFrame =
  framePixelData :: "nat option"

text \<open>
  An image. \<open>pixelData\<close> is the address of the array that \<open>getPixelData()\<close>
  returns, \<open>None\<close> while the image has no \<open>getPixelData\<close>.
\<close>

record image =
  imageId :: string
  intercept :: int
  windowCenter :: int
  windowWidth :: int
  color :: bool
  numComps :: nat
  dataType :: "string option"
  slope :: int
  minPixelValue :: int
  maxPixelValue :: int
  rows :: nat
  columns :: nat
  height :: nat
  width :: nat
  columnPixelSpacing :: "real option"
  rowPixelSpacing :: "real option"
  FrameOfReferenceUID :: "string option"
  invert :: bool
  sizeInBytes :: "nat option"
  pixelData :: "nat option"
  voxelManagerOf :: "voxelManager option"
  imageFrameOf :: "imageFrame option"

record imagePlaneModule =
  planeRows :: nat
  planeColumns :: nat
  planeColumnPixelSpacing :: "real option"
  planeRowPixelSpacing :: "real option"
  planeFrameOfReferenceUID :: "string option"

record imagePixelModule =
  bitsAllocated :: int
  bitsStored :: int
  highBit :: int
  samplesPerPixel :: int
  pixelRepresentation :: int
  otherPixelAttributes :: "(string \<times> string) list"

datatype promiseState = Pending | Fulfilled image | Rejected error

datatype loaderEvent = IMAGE_LOADED image | IMAGE_LOAD_FAILED string error

text \<open>
  The handlers attached to a promise: those of \<open>loadImageFromImageLoader\<close> (for the
  image with the given id) and those of the cache for the entry stored under the given id.
\<close>

datatype reaction = LoaderHandlers string | CacheHandlers string

text \<open>
  Modelled from the spec: the cache store (\<open>cache\<close>), which is not among the sources:
  an entry is a resolved Frame or an in-flight handle.
\<close>

datatype cacheEntry = Handle imageLoadObject | Frame image

record additionalDetails =
  detailsImageId :: "string option"
  detailsVolumeId :: "string option"

record requestDetails =
  additionalDetailsOf :: additionalDetails

text \<open>
  The state of the module and of its collaborators: the two registries of the module
  (for \<open>imageLoaders\<close>, a plain object, its own properties and what its prototype chain
  gives for the other names); the cache; the promises and their handlers; the fetches started (loader name, image id,
  options passed), oldest first; the events triggered; the warnings logged; the request
  pool, per request type and per priority, keys in the order \<open>Object.keys\<close> lists
  them; the hooks called; the metadata by module name and image id; the typed arrays.
\<close>

record world =
  imageLoaders :: "string \<rightharpoonup> imageLoader"
  inherited :: "string \<Rightarrow> found option"
  unknownImageLoader :: "imageLoader option"
  imageCache :: "string \<rightharpoonup> cacheEntry"
  volumeCache :: "string \<rightharpoonup> imageLoadObject"
  promises :: "promiseState list"
  reactions :: "(nat \<times> reaction) list"
  fetches :: "(string \<times> string \<times> imageLoaderOptions option) list"
  eventLog :: "loaderEvent list"
  warnings :: "error list"
  requestPool :: "(string \<times> (int \<times> requestDetails list) list) list"
  called :: "hook list"
  imagePlaneModules :: "string \<rightharpoonup> imagePlaneModule"
  generalSeriesModules :: "string \<rightharpoonup> string"
  imagePixelModules :: "string \<rightharpoonup> imagePixelModule"
  typedArrays :: "typedArray list"

text \<open>
  The module creates \<open>imageLoaders\<close> as \<open>{}\<close>, whose prototype is
  \<open>Object.prototype\<close>: reading one of the names below on it gives an inherited value
  that is neither \<open>undefined\<close> nor \<open>null\<close>. Used as a loader, each of them ends in a
  TypeError: \<open>__proto__\<close> is an object and cannot be called; \<open>constructor\<close>,
  \<open>toString\<close> and \<open>isPrototypeOf\<close> return a value without a \<open>promise\<close>, whose
  \<open>then\<close> cannot be read; the others need a \<open>this\<close> and are called without one.
\<close>

definition objectPrototypeNames :: "string list" where
  "objectPrototypeNames =
     [''constructor'', ''__defineGetter__'', ''__defineSetter__'', ''hasOwnProperty'',
      ''__lookupGetter__'', ''__lookupSetter__'', ''isPrototypeOf'',
      ''propertyIsEnumerable'', ''toString'', ''valueOf'', ''__proto__'',
      ''toLocaleString'']"

definition objectPrototype :: "string \<Rightarrow> found option" where
  "objectPrototype name =
     (if name \<in> set objectPrototypeNames then Some (NotALoader TypeError) else None)"

definition emptyWorld :: world where
  "emptyWorld =
     \<lparr>imageLoaders = Map.empty, inherited = objectPrototype, unknownImageLoader = None,
      imageCache = Map.empty,
      volumeCache = Map.empty, promises = [], reactions = [], fetches = [], eventLog = [],
      warnings = [], requestPool = [], called = [], imagePlaneModules = Map.empty,
      generalSeriesModules = Map.empty, imagePixelModules = Map.empty, typedArrays = []\<rparr>"

subsection \<open>Strings\<close>

text \<open>\<open>String.prototype.indexOf\<close> for one character: the first position, or -1.\<close>

fun indexOf :: "string \<Rightarrow> char \<Rightarrow> int" where
  "indexOf [] c = - 1"
| "indexOf (x # xs) c =
     (if x = c then 0 else (let i = indexOf xs c in if i < 0 then - 1 else i + 1))"

text \<open>
  \<open>String.prototype.substring\<close>: both arguments are clamped to \<open>[0, length]\<close>
  and swapped when the first is the larger.
\<close>

definition clampIndex :: "string \<Rightarrow> int \<Rightarrow> nat" where
  "clampIndex s i = (if i < 0 then 0 else min (nat i) (length s))"

definition substring :: "string \<Rightarrow> int \<Rightarrow> int \<Rightarrow> string" where
  "substring s a b =
     (let lo = min (clampIndex s a) (clampIndex s b);
          hi = max (clampIndex s a) (clampIndex s b)
      in take (hi - lo) (drop lo s))"

text \<open>The truth value of an optional string: \<open>undefined\<close> and \<open>''\<close> are falsy.\<close>

fun truthy :: "string option \<Rightarrow> bool" where
  "truthy None = False"
| "truthy (Some s) = (s \<noteq> [])"

subsection \<open>Collaborators\<close>

text \<open>
  Modelled from the spec: the cache store, which is not among the sources.
  \<open>getImageLoadObject\<close> is \<open>get\<close>: the entry under the id, if any.
  \<open>putImageLoadObject\<close> is \<open>put\<close> of an in-flight handle: it registers the handle
  and attaches the handlers that, on completion, replace the handle with the resolved
  Frame and, on failure, remove the entry. \<open>putImageSync\<close> is \<open>put\<close> of a Frame.
\<close>

definition getImageLoadObject :: "string \<Rightarrow> world \<Rightarrow> cacheEntry option" where
  "getImageLoadObject iid w = imageCache w iid"

definition getVolumeLoadObject :: "string \<Rightarrow> world \<Rightarrow> imageLoadObject option" where
  "getVolumeLoadObject vid w = volumeCache w vid"

definition putImageLoadObject :: "string \<Rightarrow> imageLoadObject \<Rightarrow> world \<Rightarrow> world" where
  "putImageLoadObject iid lo w =
     w\<lparr>imageCache := (imageCache w)(iid \<mapsto> Handle lo),
       reactions := reactions w @ [(promise lo, CacheHandlers iid)]\<rparr>"

definition putImageSync :: "string \<Rightarrow> image \<Rightarrow> world \<Rightarrow> world" where
  "putImageSync iid img w = w\<lparr>imageCache := (imageCache w)(iid \<mapsto> Frame img)\<rparr>"

text \<open>
  The function properties of what \<open>getImageLoadObject\<close> returns: those of the handle;
  the object standing for a resolved Frame has none.
\<close>

fun entryCancelFn :: "cacheEntry \<Rightarrow> hook option" where
  "entryCancelFn (Handle lo) = cancelFn lo"
| "entryCancelFn (Frame img) = None"

fun entryCancel :: "cacheEntry \<Rightarrow> hook option" where
  "entryCancel (Handle lo) = cancel lo"
| "entryCancel (Frame img) = None"

text \<open>
  Calling an optional function property: \<open>undefined()\<close> raises a TypeError, a
  function is run (and recorded).
\<close>

definition callHook :: "hook option \<Rightarrow> world \<Rightarrow> (error + unit) \<times> world" where
  "callHook h w =
     (case h of
        None \<Rightarrow> (Inl TypeError, w)
      | Some f \<Rightarrow> (Inr (), w\<lparr>called := called w @ [f]\<rparr>))"

text \<open>
  Modelled from the spec: the request pool manager (\<open>imageLoadPoolManager\<close>), which is
  not among the sources. \<open>getRequestPool\<close> returns the per-type per-priority queues,
  \<open>filterRequests\<close> keeps in every queue the requests for which the predicate is
  true, \<open>clearRequestStack\<close> empties the pool of one type.
\<close>

definition getRequestPool :: "world \<Rightarrow> (string \<times> (int \<times> requestDetails list) list) list" where
  "getRequestPool w = requestPool w"

definition filterRequests :: "(requestDetails \<Rightarrow> bool) \<Rightarrow> world \<Rightarrow> world" where
  "filterRequests keep w =
     w\<lparr>requestPool :=
         map (\<lambda>(type, requests).
                (type, map (\<lambda>(prio, queue). (prio, filter keep queue)) requests))
             (requestPool w)\<rparr>"

definition clearRequestStack :: "string \<Rightarrow> world \<Rightarrow> world" where
  "clearRequestStack type w =
     w\<lparr>requestPool :=
         map (\<lambda>(type', requests). if type' = type then (type', []) else (type', requests))
             (requestPool w)\<rparr>"

text \<open>The requests still queued, over all types and priorities.\<close>

definition queuedRequests :: "world \<Rightarrow> requestDetails list" where
  "queuedRequests w =
     concat (map (\<lambda>(type, requests). concat (map snd requests)) (requestPool w))"

definition queuedOfType :: "string \<Rightarrow> world \<Rightarrow> requestDetails list" where
  "queuedOfType type w =
     concat (map (\<lambda>(type', requests). if type' = type then concat (map snd requests) else [])
               (requestPool w))"

text \<open>
  Modelled from the spec: the metadata provider (\<open>metaData\<close> and
  \<open>genericMetadataProvider\<close>), which is not among the sources:
  \<open>metaData.get(module, id)\<close> reads the metadata stored for the id (\<open>undefined\<close> when
  there is none), \<open>genericMetadataProvider.add\<close> stores what it is given under the
  id. There is one pair of functions for each of the three modules the code uses.
\<close>

definition getImagePlaneModule :: "string \<Rightarrow> world \<Rightarrow> imagePlaneModule option" where
  "getImagePlaneModule iid w = imagePlaneModules w iid"

definition getGeneralSeriesModule :: "string \<Rightarrow> world \<Rightarrow> string option" where
  "getGeneralSeriesModule iid w = generalSeriesModules w iid"

definition getImagePixelModule :: "string \<Rightarrow> world \<Rightarrow> imagePixelModule option" where
  "getImagePixelModule iid w = imagePixelModules w iid"

definition addImagePlaneModule :: "string \<Rightarrow> imagePlaneModule option \<Rightarrow> world \<Rightarrow> world" where
  "addImagePlaneModule iid metadata w =
     w\<lparr>imagePlaneModules := (imagePlaneModules w)(iid := metadata)\<rparr>"

definition addGeneralSeriesModule :: "string \<Rightarrow> string option \<Rightarrow> world \<Rightarrow> world" where
  "addGeneralSeriesModule iid metadata w =
     w\<lparr>generalSeriesModules := (generalSeriesModules w)(iid := metadata)\<rparr>"

definition addImagePixelModule :: "string \<Rightarrow> imagePixelModule option \<Rightarrow> world \<Rightarrow> world" where
  "addImagePixelModule iid metadata w =
     w\<lparr>imagePixelModules := (imagePixelModules w)(iid := metadata)\<rparr>"

text \<open>\<open>new TypedArrayConstructor(n)\<close>: a new zero-filled array at a new address.\<close>

definition newTypedArray :: "typedArrayKind \<Rightarrow> nat \<Rightarrow> world \<Rightarrow> nat \<times> world" where
  "newTypedArray k n w =
     (length (typedArrays w),
      w\<lparr>typedArrays := typedArrays w @ [\<lparr>kind = k, elements = replicate n 0\<rparr>]\<rparr>)"

definition typedArrayAt :: "nat \<Rightarrow> world \<Rightarrow> typedArray option" where
  "typedArrayAt a w = (if a < length (typedArrays w) then Some (typedArrays w ! a) else None)"

text \<open>
  The result of \<open>getBufferConfiguration\<close>, a function of the repository that is not
  among the sources; the functions below take it as a parameter.
\<close>

record bufferConfiguration =
  numBytes :: nat
  TypedArrayConstructor :: typedArrayKind

type_synonym bufferConfigurator = "string option \<Rightarrow> nat \<Rightarrow> error + bufferConfiguration"

text \<open>\<open>VoxelManager.createImageVoxelManager\<close> wraps the scalar data it is given.\<close>

definition createImageVoxelManager :: "nat \<Rightarrow> nat \<Rightarrow> nat \<Rightarrow> nat \<Rightarrow> voxelManager" where
  "createImageVoxelManager h wd comps scalarData =
     \<lparr>vmHeight = h, vmWidth = wd, vmNumComps = comps, vmScalarData = scalarData\<rparr>"

subsection \<open>Registering loaders\<close>

text \<open>
  \<open>imageLoaders[scheme] = imageLoader\<close> creates or overwrites an own property, except
  for the name \<open>__proto__\<close>: that assignment makes the loader function the prototype
  of \<open>imageLoaders\<close>, so that \<open>__proto__\<close> then reads as the loader and every other
  name that is no own property reads as on the loader function.
\<close>

definition registerImageLoader :: "string \<Rightarrow> imageLoader \<Rightarrow> world \<Rightarrow> world" where
  "registerImageLoader scheme imageLoader w =
     (if scheme = ''__proto__'' then
        w\<lparr>inherited :=
            (\<lambda>name. if name = ''__proto__'' then Some (Loader imageLoader)
                     else map_option NotALoader (functionProperties imageLoader name))\<rparr>
      else w\<lparr>imageLoaders := (imageLoaders w)(scheme \<mapsto> imageLoader)\<rparr>)"

definition registerUnknownImageLoader ::
  "imageLoader \<Rightarrow> world \<Rightarrow> imageLoader option \<times> world" where
  "registerUnknownImageLoader imageLoader w =
     (let oldImageLoader = unknownImageLoader w
      in (oldImageLoader, w\<lparr>unknownImageLoader := Some imageLoader\<rparr>))"

text \<open>
  \<open>unregisterAllImageLoaders\<close> deletes the own properties and the unknown-image
  loader; the prototype of \<open>imageLoaders\<close> stays.
\<close>

definition unregisterAllImageLoaders :: "world \<Rightarrow> world" where
  "unregisterAllImageLoaders w = w\<lparr>imageLoaders := Map.empty, unknownImageLoader := None\<rparr>"

subsection \<open>Loading\<close>

text \<open>
  Calling a loader: the fetch is logged, a new pending promise is added to the table and
  the load object for it is returned.
\<close>

definition callLoader ::
  "imageLoader \<Rightarrow> string \<Rightarrow> imageLoaderOptions option \<Rightarrow> world \<Rightarrow> imageLoadObject \<times> world" where
  "callLoader loader iid options w =
     (\<lparr>promise = length (promises w), cancelFn = suppliedCancelFn loader,
       cancel = suppliedCancel loader\<rparr>,
      w\<lparr>promises := promises w @ [Pending],
        fetches := fetches w @ [(loaderName loader, iid, options)]\<rparr>)"

text \<open>The scheme of an image id, as \<open>loadImageFromImageLoader\<close> computes it.\<close>

definition schemeOf :: "string \<Rightarrow> string" where
  "schemeOf iid = (let colonIndex = indexOf iid CHR '':'' in substring iid 0 colonIndex)"

text \<open>
  Reading \<open>imageLoaders[scheme]\<close>: the own property when there is one, otherwise what
  the prototype chain gives.
\<close>

definition lookupLoader :: "string \<Rightarrow> world \<Rightarrow> found option" where
  "lookupLoader scheme w =
     (case imageLoaders w scheme of
        Some loader \<Rightarrow> Some (Loader loader)
      | None \<Rightarrow> inherited w scheme)"

text \<open>
  \<open>loadImageFromImageLoader\<close>: when \<open>imageLoaders[scheme]\<close> is \<open>undefined\<close>, the
  unknown-image loader, if there is one, is called with the id alone and its load object
  is returned as it is, and without one an error is thrown. Otherwise the value read is
  called with the id and the options and the event handlers are attached to the promise
  of the load object; when the value read is no loader, this raises its error.
\<close>

definition loadImageFromImageLoader ::
  "string \<Rightarrow> imageLoaderOptions \<Rightarrow> world \<Rightarrow> (error + imageLoadObject) \<times> world" where
  "loadImageFromImageLoader iid options w =
     (let scheme = schemeOf iid in
      case lookupLoader scheme w of
        None \<Rightarrow>
          (case unknownImageLoader w of
             Some unknown \<Rightarrow>
               (let (imageLoadObject, w1) = callLoader unknown iid None w
                in (Inr imageLoadObject, w1))
           | None \<Rightarrow>
               (Inl (Error ''loadImageFromImageLoader: no image loader for imageId''), w))
      | Some (NotALoader e) \<Rightarrow> (Inl e, w)
      | Some (Loader loader) \<Rightarrow>
          (let (imageLoadObject, w1) = callLoader loader iid (Some options) w
           in (Inr imageLoadObject,
               w1\<lparr>reactions := reactions w1 @ [(promise imageLoadObject, LoaderHandlers iid)]\<rparr>)))"

text \<open>
  \<open>loadImage\<close>. The image id is optional in the model because the code tests it against
  \<open>undefined\<close>. The result is the promise of the load object.
\<close>

definition loadImage ::
  "string option \<Rightarrow> imageLoaderOptions option \<Rightarrow> world \<Rightarrow> (error + nat) \<times> world" where
  "loadImage iid options w =
     (case iid of
        None \<Rightarrow> (Inl (Error ''loadImage: parameter imageId must not be undefined''), w)
      | Some i \<Rightarrow>
          (case loadImageFromImageLoader i (orDefault options) w of
             (Inl e, w1) \<Rightarrow> (Inl e, w1)
           | (Inr imageLoadObject, w1) \<Rightarrow> (Inr (promise imageLoadObject), w1)))"

text \<open>
  \<open>loadAndCacheImage\<close>: the loader is called first; the load object is put into the
  cache only when the cache has no entry for the id; the promise of the new load object
  is returned.
\<close>

definition loadAndCacheImage ::
  "string option \<Rightarrow> imageLoaderOptions option \<Rightarrow> world \<Rightarrow> (error + nat) \<times> world" where
  "loadAndCacheImage iid options w =
     (case iid of
        None \<Rightarrow>
          (Inl (Error ''loadAndCacheImage: parameter imageId must not be undefined''), w)
      | Some i \<Rightarrow>
          (case loadImageFromImageLoader i (orDefault options) w of
             (Inl e, w1) \<Rightarrow> (Inl e, w1)
           | (Inr imageLoadObject, w1) \<Rightarrow>
               (let w2 = (case getImageLoadObject i w1 of
                            None \<Rightarrow> putImageLoadObject i imageLoadObject w1
                          | Some entry \<Rightarrow> w1)
                in (Inr (promise imageLoadObject), w2))))"

text \<open>The \<open>map\<close> of \<open>loadAndCacheImages\<close>: an exception ends it.\<close>

fun loadAndCacheEach ::
  "string option list \<Rightarrow> imageLoaderOptions option \<Rightarrow> world \<Rightarrow> (error + nat list) \<times> world" where
  "loadAndCacheEach [] options w = (Inr [], w)"
| "loadAndCacheEach (iid # iids) options w =
     (case loadAndCacheImage iid options w of
        (Inl e, w1) \<Rightarrow> (Inl e, w1)
      | (Inr p, w1) \<Rightarrow>
          (case loadAndCacheEach iids options w1 of
             (Inl e, w2) \<Rightarrow> (Inl e, w2)
           | (Inr ps, w2) \<Rightarrow> (Inr (p # ps), w2)))"

definition loadAndCacheImages ::
  "string option list option \<Rightarrow> imageLoaderOptions option \<Rightarrow> world
   \<Rightarrow> (error + nat list) \<times> world" where
  "loadAndCacheImages imageIds options w =
     (case imageIds of
        None \<Rightarrow>
          (Inl (Error ''loadAndCacheImages: parameter imageIds must be list of image Ids''), w)
      | Some iids \<Rightarrow>
          (if length iids = 0 then
             (Inl (Error ''loadAndCacheImages: parameter imageIds must be list of image Ids''), w)
           else loadAndCacheEach iids options w))"

subsection \<open>Completion of a fetch\<close>





subsection \<open>Cancelling\<close>

text \<open>The filter function of \<open>cancelLoadImage\<close>: which requests to keep.\<close>

definition filterFunction :: "string \<Rightarrow> requestDetails \<Rightarrow> bool" where
  "filterFunction iid request =
     (if truthy (detailsImageId (additionalDetailsOf request)) then
        detailsImageId (additionalDetailsOf request) \<noteq> Some iid
      else True)"

text \<open>
  \<open>cancelLoadImage\<close>: the queued requests for the id are dropped; then, when the cache
  has a load object for the id, its \<open>cancelFn\<close> is called, whether or not it is there.
\<close>

definition cancelLoadImage :: "string \<Rightarrow> world \<Rightarrow> (error + unit) \<times> world" where
  "cancelLoadImage iid w =
     (let w1 = filterRequests (filterFunction iid) w in
      case getImageLoadObject iid w1 of
        None \<Rightarrow> (Inr (), w1)
      | Some imageLoadObject \<Rightarrow> callHook (entryCancelFn imageLoadObject) w1)"

fun cancelLoadImages :: "string list \<Rightarrow> world \<Rightarrow> (error + unit) \<times> world" where
  "cancelLoadImages [] w = (Inr (), w)"
| "cancelLoadImages (iid # iids) w =
     (case cancelLoadImage iid w of
        (Inl e, w1) \<Rightarrow> (Inl e, w1)
      | (Inr u, w1) \<Rightarrow> cancelLoadImages iids w1)"

text \<open>
  \<open>requests[priority].pop()\<close> on the pool of one type: the last request of the queue is
  removed and returned; on an empty queue the result is \<open>undefined\<close>.
\<close>

definition queueOf :: "string \<Rightarrow> int \<Rightarrow> world \<Rightarrow> requestDetails list option" where
  "queueOf type prio w =
     (case map_of (requestPool w) type of
        None \<Rightarrow> None
      | Some requests \<Rightarrow> map_of requests prio)"

definition setQueue :: "string \<Rightarrow> int \<Rightarrow> requestDetails list \<Rightarrow> world \<Rightarrow> world" where
  "setQueue type prio queue w =
     w\<lparr>requestPool :=
         map (\<lambda>(type', requests).
                if type' = type then
                  (type', map (\<lambda>(prio', queue'). if prio' = prio then (prio', queue)
                                                  else (prio', queue')) requests)
                else (type', requests))
             (requestPool w)\<rparr>"

definition popRequest :: "string \<Rightarrow> int \<Rightarrow> world \<Rightarrow> (error + requestDetails option) \<times> world" where
  "popRequest type prio w =
     (case queueOf type prio w of
        None \<Rightarrow> (Inl TypeError, w)
      | Some queue \<Rightarrow>
          (if queue = [] then (Inr None, w)
           else (Inr (Some (last queue)), setQueue type prio (butlast queue) w)))"

text \<open>
  The body of the inner \<open>forEach\<close> of \<open>cancelLoadAll\<close>, for one priority of one
  type: one request is popped, its load object is looked up by image id or else by volume
  id, and \<open>cancel\<close> is called on the load object found. \<open>findLoadObject\<close>
  gives the \<open>cancel\<close> property of the load object found, \<open>None\<close> when there is no
  load object.
\<close>

definition findLoadObject :: "additionalDetails \<Rightarrow> world \<Rightarrow> hook option option" where
  "findLoadObject details w =
     (let byVolumeId =
            (case detailsVolumeId details of
               None \<Rightarrow> None
             | Some vid \<Rightarrow>
                 (if vid \<noteq> [] then map_option cancel (getVolumeLoadObject vid w) else None))
      in case detailsImageId details of
           None \<Rightarrow> byVolumeId
         | Some iid \<Rightarrow>
             (if iid \<noteq> [] then map_option entryCancel (getImageLoadObject iid w)
              else byVolumeId))"

definition cancelOnePriority :: "string \<Rightarrow> int \<Rightarrow> world \<Rightarrow> (error + unit) \<times> world" where
  "cancelOnePriority type prio w =
     (case popRequest type prio w of
        (Inl e, w1) \<Rightarrow> (Inl e, w1)
      | (Inr None, w1) \<Rightarrow> (Inl TypeError, w1)
      | (Inr (Some requestDetails), w1) \<Rightarrow>
          (case findLoadObject (additionalDetailsOf requestDetails) w1 of
             None \<Rightarrow> (Inr (), w1)
           | Some cancelProperty \<Rightarrow> callHook cancelProperty w1))"

fun cancelPriorities :: "string \<Rightarrow> int list \<Rightarrow> world \<Rightarrow> (error + unit) \<times> world" where
  "cancelPriorities type [] w = (Inr (), w)"
| "cancelPriorities type (prio # prios) w =
     (case cancelOnePriority type prio w of
        (Inl e, w1) \<Rightarrow> (Inl e, w1)
      | (Inr u, w1) \<Rightarrow> cancelPriorities type prios w1)"

text \<open>
  The body of the outer \<open>forEach\<close>, for one type: the priorities of the type are
  visited, then the pool of the type is cleared.
\<close>

definition prioritiesOf :: "string \<Rightarrow> world \<Rightarrow> int list" where
  "prioritiesOf type w =
     (case map_of (getRequestPool w) type of None \<Rightarrow> [] | Some requests \<Rightarrow> map fst requests)"

fun cancelTypes :: "string list \<Rightarrow> world \<Rightarrow> (error + unit) \<times> world" where
  "cancelTypes [] w = (Inr (), w)"
| "cancelTypes (type # types) w =
     (case cancelPriorities type (prioritiesOf type w) w of
        (Inl e, w1) \<Rightarrow> (Inl e, w1)
      | (Inr u, w1) \<Rightarrow> cancelTypes types (clearRequestStack type w1))"

definition cancelLoadAll :: "world \<Rightarrow> (error + unit) \<times> world" where
  "cancelLoadAll w = cancelTypes (map fst (getRequestPool w)) w"

subsection \<open>Local and derived images\<close>

text \<open>
  The options of \<open>createAndCacheLocalImage\<close> and \<open>createAndCacheDerivedImage\<close>
  (the latter adds \<open>imageId\<close>). \<open>scalarData\<close> is the address of a typed array,
  \<open>onCacheAdd\<close> a callback that may update the image.
\<close>

record derivedImageOptions =
  optionsImageId :: "string option"
  scalarData :: "nat option"
  targetBufferType :: "string option"
  skipCreateBuffer :: "bool option"
  onCacheAdd :: "(image \<Rightarrow> image) option"

definition noOptions :: derivedImageOptions where
  "noOptions =
     \<lparr>optionsImageId = None, scalarData = None, targetBufferType = None,
      skipCreateBuffer = None, onCacheAdd = None\<rparr>"

text \<open>The \<open>instanceof\<close> test of \<open>createAndCacheLocalImage\<close>.\<close>

fun acceptedScalarData :: "typedArrayKind \<Rightarrow> bool" where
  "acceptedScalarData Uint8Array = True"
| "acceptedScalarData Float32Array = True"
| "acceptedScalarData Uint16Array = True"
| "acceptedScalarData Int16Array = True"
| "acceptedScalarData (OtherTypedArray name bytes) = False"

text \<open>
  The end of \<open>createAndCacheLocalImage\<close>, from the creation of the voxel manager:
  calling a missing \<open>getPixelData\<close> raises a TypeError; otherwise the voxel manager
  wraps the pixel data, the callback runs and the image is put into the cache under its id.
\<close>

definition finishLocalImage ::
  "derivedImageOptions \<Rightarrow> image \<Rightarrow> world \<Rightarrow> (error + image) \<times> world" where
  "finishLocalImage options img w =
     (case pixelData img of
        None \<Rightarrow> (Inl TypeError, w)
      | Some data \<Rightarrow>
          (let voxelManager = createImageVoxelManager (height img) (width img) (numComps img) data;
               img1 = img\<lparr>pixelData := Some (vmScalarData voxelManager),
                         voxelManagerOf := Some voxelManager\<rparr>;
               img2 = (case onCacheAdd options of None \<Rightarrow> img1 | Some f \<Rightarrow> f img1)
           in (Inr img2, putImageSync (imageId img2) img2 w)))"

definition createAndCacheLocalImage ::
  "bufferConfigurator \<Rightarrow> derivedImageOptions \<Rightarrow> string \<Rightarrow> world \<Rightarrow> (error + image) \<times> world" where
  "createAndCacheLocalImage getBufferConfiguration options iid w =
     (case getImagePlaneModule iid w of
        None \<Rightarrow> (Inl TypeError, w)
      | Some plane \<Rightarrow>
          (let wd = planeColumns plane;
               h = planeRows plane;
               len = wd * h;
               img = \<lparr>imageId = iid, intercept = 0, windowCenter = 0, windowWidth = 0,
                      color = False, numComps = 1, dataType = targetBufferType options,
                      slope = 1, minPixelValue = 0, maxPixelValue = 255, rows = h,
                      columns = wd, height = h, width = wd,
                      columnPixelSpacing = planeColumnPixelSpacing plane,
                      rowPixelSpacing = planeRowPixelSpacing plane,
                      FrameOfReferenceUID = planeFrameOfReferenceUID plane, invert = False,
                      sizeInBytes = None, pixelData = None, voxelManagerOf = None,
                      imageFrameOf = None\<rparr>
           in case scalarData options of
                Some imageScalarData \<Rightarrow>
                  (case typedArrayAt imageScalarData w of
                     None \<Rightarrow>
                       (Inl (Error ''To use createLocalVolume you should pass scalarData of type Uint8Array, Uint16Array, Int16Array or Float32Array''), w)
                   | Some array \<Rightarrow>
                       (if \<not> acceptedScalarData (kind array) then
                          (Inl (Error ''To use createLocalVolume you should pass scalarData of type Uint8Array, Uint16Array, Int16Array or Float32Array''), w)
                        else
                          finishLocalImage options
                            (img\<lparr>sizeInBytes :=
                                   Some (length (elements array) * bytesPerElement (kind array)),
                                 pixelData := Some imageScalarData\<rparr>) w))
              | None \<Rightarrow>
                  (if skipCreateBuffer options \<noteq> Some True then
                     (case getBufferConfiguration (targetBufferType options) len of
                        Inl e \<Rightarrow> (Inl e, w)
                      | Inr config \<Rightarrow>
                          (let (imageScalarData, w1) =
                                 newTypedArray (TypedArrayConstructor config) len w
                           in finishLocalImage options
                                (img\<lparr>sizeInBytes := Some (numBytes config),
                                     pixelData := Some imageScalarData\<rparr>) w1))
                   else finishLocalImage options img w)))"

text \<open>The pixel module stored for a derived image: the source's, with five attributes set.\<close>

definition derivedPixelModule :: "imagePixelModule option \<Rightarrow> imagePixelModule" where
  "derivedPixelModule source =
     \<lparr>bitsAllocated = 8, bitsStored = 8, highBit = 7, samplesPerPixel = 1,
      pixelRepresentation = 0,
      otherPixelAttributes = (case source of None \<Rightarrow> [] | Some m \<Rightarrow> otherPixelAttributes m)\<rparr>"

text \<open>
  \<open>createAndCacheDerivedImage\<close>. \<open>uuid\<close> is the value \<open>uuidv4()\<close> returns, used
  only when the options carry no image id.
\<close>

definition createAndCacheDerivedImage ::
  "bufferConfigurator \<Rightarrow> string \<Rightarrow> string option \<Rightarrow> derivedImageOptions \<Rightarrow> world
   \<Rightarrow> (error + image) \<times> world" where
  "createAndCacheDerivedImage getBufferConfiguration uuid referencedImageId options w =
     (case referencedImageId of
        None \<Rightarrow>
          (Inl (Error ''createAndCacheDerivedImage: parameter imageId must not be undefined''), w)
      | Some referenced \<Rightarrow>
          (let iid = (case optionsImageId options of
                        None \<Rightarrow> ''derived:'' @ uuid
                      | Some given \<Rightarrow> given)
           in case getImagePlaneModule referenced w of
                None \<Rightarrow> (Inl TypeError, w)
              | Some plane \<Rightarrow>
                  (let len = planeRows plane * planeColumns plane
                   in case getBufferConfiguration (targetBufferType options) len of
                        Inl e \<Rightarrow> (Inl e, w)
                      | Inr config \<Rightarrow>
                          (let (imageScalarData, w1) =
                                 newTypedArray (TypedArrayConstructor config)
                                   (if skipCreateBuffer options = Some True then 1 else len) w;
                               w2 = addImagePlaneModule iid
                                      (getImagePlaneModule referenced w1) w1;
                               w3 = addGeneralSeriesModule iid
                                      (getGeneralSeriesModule referenced w2) w2;
                               w4 = addImagePixelModule iid
                                      (Some (derivedPixelModule
                                               (getImagePixelModule referenced w3))) w3
                           in case createAndCacheLocalImage getBufferConfiguration
                                     \<lparr>optionsImageId = None,
                                      scalarData = Some imageScalarData,
                                      targetBufferType =
                                        Some (kindName (TypedArrayConstructor config)),
                                      skipCreateBuffer = skipCreateBuffer options,
                                      onCacheAdd = onCacheAdd options\<rparr> iid w4 of
                                (Inl e, w5) \<Rightarrow> (Inl e, w5)
                              | (Inr localImage, w5) \<Rightarrow>
                                  (Inr localImage,
                                   (case getImageLoadObject iid w5 of
                                      None \<Rightarrow> putImageSync iid localImage w5
                                    | Some entry \<Rightarrow> w5))))))"

subsection \<open>Notions used to state the properties\<close>

text \<open>
  The loader that \<open>loadImageFromImageLoader\<close> calls for an image id, if it calls one:
  the loader read under the scheme, or the unknown-image loader when nothing is read.
\<close>

definition resolve :: "string \<Rightarrow> world \<Rightarrow> imageLoader option" where
  "resolve iid w =
     (case lookupLoader (schemeOf iid) w of
        Some (Loader loader) \<Rightarrow> Some loader
      | Some (NotALoader e) \<Rightarrow> None
      | None \<Rightarrow> unknownImageLoader w)"

text \<open>The number of fetches started for an image id.\<close>

definition fetchCount :: "string \<Rightarrow> world \<Rightarrow> nat" where
  "fetchCount iid w = length (filter (\<lambda>(name, i, options). i = iid) (fetches w))"


text \<open>A buffer configurator for examples: \<open>Float32Array\<close> whatever is asked.\<close>

definition float32Configuration :: bufferConfigurator where
  "float32Configuration bufferType len =
     Inr \<lparr>numBytes = len * 4, TypedArrayConstructor = Float32Array\<rparr>"

subsection \<open>Example worlds\<close>

text \<open>
  The properties of an ordinary function object: those of \<open>Function.prototype\<close> and of
  \<open>Object.prototype\<close>. None of them is a loader.
\<close>

definition plainFunction :: "string \<Rightarrow> error option" where
  "plainFunction name =
     (if name = ''constructor'' then Some SyntaxError
      else if name \<in> set ([''length'', ''name'', ''arguments'', ''caller'', ''apply'',
                             ''bind'', ''call''] @ objectPrototypeNames)
      then Some TypeError
      else None)"

text \<open>
  A loader that supplies no cancel function, registered for the scheme \<open>wadors\<close>;
  a fallback loader registered as the unknown-image loader.
\<close>

definition plainLoader :: imageLoader where
  "plainLoader =
     \<lparr>loaderName = ''wadors'', suppliedCancelFn = None, suppliedCancel = None,
      functionProperties = plainFunction\<rparr>"

definition wadorsWorld :: world where
  "wadorsWorld = registerImageLoader ''wadors'' plainLoader emptyWorld"

definition fallbackLoader :: imageLoader where
  "fallbackLoader =
     \<lparr>loaderName = ''fallback'', suppliedCancelFn = None, suppliedCancel = None,
      functionProperties = plainFunction\<rparr>"

definition fallbackWorld :: world where
  "fallbackWorld = snd (registerUnknownImageLoader fallbackLoader emptyWorld)"

subsection \<open>The request pool of the examples and what cancelling keeps\<close>

text \<open>A queued request for an image.\<close>

definition imageRequest :: "string \<Rightarrow> requestDetails" where
  "imageRequest iid =
     \<lparr>additionalDetailsOf = \<lparr>detailsImageId = Some iid, detailsVolumeId = None\<rparr>\<rparr>"

text \<open>
  A world with one fetch in flight, for \<open>wadors:1\<close>, whose loader supplied no cancel
  function and whose load object is in the cache, and three queued requests of type
  \<open>prefetch\<close> that have not started; the last one queued names the image in flight.
\<close>

definition requestedWorld :: world where
  "requestedWorld =
     (snd (loadAndCacheImage (Some ''wadors:1'') None wadorsWorld))
       \<lparr>requestPool :=
          [(''prefetch'',
            [(0, [imageRequest ''wadors:2'', imageRequest ''wadors:3'',
                  imageRequest ''wadors:1''])])]\<rparr>"

text \<open>
  A world with three queued requests of type \<open>prefetch\<close> and, for the type
  \<open>interaction\<close>, a priority whose queue is empty.
\<close>

definition idleInteractionWorld :: world where
  "idleInteractionWorld =
     emptyWorld
       \<lparr>requestPool :=
          [(''interaction'', [(0, [])]),
           (''prefetch'',
            [(0, [imageRequest ''wadors:1'', imageRequest ''wadors:2'',
                  imageRequest ''wadors:3''])])]\<rparr>"

text \<open>
  The request types whose pool is empty, and what every step of \<open>cancelLoadAll\<close>
  keeps: the emptied types stay emptied, the request types, the cache and the promises
  are unchanged.
\<close>

definition emptiedTypes :: "world \<Rightarrow> string set" where
  "emptiedTypes w = {t. \<forall>requests. (t, requests) \<in> set (requestPool w) \<longrightarrow> requests = []}"

definition keeps :: "world \<Rightarrow> world \<Rightarrow> bool" where
  "keeps w w' \<longleftrightarrow>
     emptiedTypes w \<subseteq> emptiedTypes w'
     \<and> map fst (requestPool w') = map fst (requestPool w)
     \<and> imageCache w' = imageCache w \<and> promises w' = promises w"

subsection \<open>The metadata of the examples\<close>

text \<open>A world whose metadata provider knows the plane module of one source image.\<close>

definition sourcePlane :: imagePlaneModule where
  "sourcePlane =
     \<lparr>planeRows = 2, planeColumns = 3, planeColumnPixelSpacing = Some 1,
      planeRowPixelSpacing = Some 1, planeFrameOfReferenceUID = Some ''1.2.3''\<rparr>"

definition planeWorld :: world where
  "planeWorld = emptyWorld\<lparr>imagePlaneModules := [''wadors:frame1'' \<mapsto> sourcePlane]\<rparr>"

section \<open>Properties of the streaming volume\<close>

lemma alternate_Nil2: "alternate xs [] = xs"
  by (cases xs) simp_all

lemma groupAt_nat: "k < length groups \<Longrightarrow> groupAt groups (int k) = Some (groups ! k)"
  by (simp add: groupAt_def)

lemma ringLoop_right:
  "m \<le> length groups \<Longrightarrow>
   ringLoop groups (- 1) (int m) ids = Inr (ids @ idsInOrder groups [m..<length groups])"
proof (induction "length groups - m" arbitrary: m ids)
  case 0
  then show ?case
    by (subst ringLoop.simps) (simp add: idsInOrder_def)
next
  case (Suc d)
  then have lt: "m < length groups" and le: "Suc m \<le> length groups"
    and d: "d = length groups - Suc m" by simp_all
  have step: "ringLoop groups (- 1) (int m) ids
              = ringLoop groups (- 1) (int (Suc m)) (ids @ groups ! m)"
    using lt by (subst ringLoop.simps) (simp add: groupAt_nat add.commute)
  have "[m..<length groups] = m # [Suc m..<length groups]"
    using lt by (simp add: upt_conv_Cons)
  then show ?case
    using Suc.hyps(1) [OF d le, of "ids @ groups ! m"] step
    by (simp add: idsInOrder_def)
qed

lemma ringLoop_alternate:
  "k \<le> length groups \<Longrightarrow> m \<le> length groups \<Longrightarrow>
   ringLoop groups (int k - 1) (int m) ids
   = Inr (ids @ idsInOrder groups (alternate (rev [0..<k]) [m..<length groups]))"
proof (induction k arbitrary: m ids)
  case 0
  then show ?case
    using ringLoop_right [of m groups ids] by simp
next
  case (Suc k)
  have k: "k < length groups" and k': "k \<le> length groups"
    using Suc.prems by simp_all
  show ?case
  proof (cases "m < length groups")
    case True
    then have m': "Suc m \<le> length groups" by simp
    have step: "ringLoop groups (int (Suc k) - 1) (int m) ids
                = ringLoop groups (int k - 1) (int (Suc m)) ((ids @ groups ! k) @ groups ! m)"
      using k True by (subst ringLoop.simps) (simp add: groupAt_nat add.commute)
    have "[m..<length groups] = m # [Suc m..<length groups]"
      using True by (simp add: upt_conv_Cons)
    then show ?thesis
      using Suc.IH [OF k' m', of "(ids @ groups ! k) @ groups ! m"] step
      by (simp add: idsInOrder_def)
  next
    case False
    then have m: "m = length groups" using Suc.prems by simp
    have step: "ringLoop groups (int (Suc k) - 1) (int m) ids
                = ringLoop groups (int k - 1) (int m) (ids @ groups ! k)"
      using k m by (subst ringLoop.simps) (simp add: groupAt_nat)
    show ?thesis
      using Suc.IH [OF k' Suc.prems(2), of "ids @ groups ! k"] step m
      by (simp add: idsInOrder_def alternate_Nil2)
  qed
qed

lemma getImageIdsToLoad_ring:
  assumes "0 \<le> timePointIndex v" and "timePointIndex v < int (length (imageIdGroups v))"
  shows "getImageIdsToLoad v
         = Inr (idsInOrder (imageIdGroups v)
                  (expandingRing (length (imageIdGroups v)) (nat (timePointIndex v))))"
proof -
  define groups where "groups = imageIdGroups v"
  define c where "c = nat (timePointIndex v)"
  have c: "c < length groups" and ci: "timePointIndex v = int c"
    using assms by (simp_all add: c_def groups_def nat_less_iff)
  have loop: "ringLoop groups (int c - 1) (int (Suc c)) (groups ! c)
              = Inr (groups ! c @ idsInOrder groups (alternate (rev [0..<c]) [Suc c..<length groups]))"
    using c by (intro ringLoop_alternate) simp_all
  have "getImageIdsToLoad v = ringLoop groups (int c - 1) (int (Suc c)) (groups ! c)"
    using c by (simp add: getImageIdsToLoad_def getImageIdsToLoadOf_def ci groupAt_nat
        groups_def [symmetric] add.commute)
  then show ?thesis
    using loop
    by (simp add: expandingRing_def idsInOrder_def groups_def [symmetric] c_def [symmetric])
qed

lemma expandingRing_5_2: "expandingRing 5 2 = [2, 1, 3, 0, 4]"
  by code_simp

text \<open>
  C3. For every group list and every current index in \<open>[0, groupCount)\<close>,
  \<open>_getImageIdsToLoad\<close> returns the identifiers of the current group first, then
  alternately one group to the left and one to the right of the current index, expanding
  outward, the remaining side appended once the other is exhausted; for five groups and
  current index 2 the groups come in the order 2, 1, 3, 0, 4.
\<close>

theorem getImageIdsToLoad_expanding_ring:
  "(0 \<le> timePointIndex v \<and> timePointIndex v < int (length (imageIdGroups v)) \<longrightarrow>
      getImageIdsToLoad v
      = Inr (idsInOrder (imageIdGroups v)
               (expandingRing (length (imageIdGroups v)) (nat (timePointIndex v)))))
   \<and> (length (imageIdGroups v) = 5 \<and> timePointIndex v = 2 \<longrightarrow>
        getImageIdsToLoad v = Inr (idsInOrder (imageIdGroups v) [2, 1, 3, 0, 4]))"
proof (intro conjI impI)
  assume "0 \<le> timePointIndex v \<and> timePointIndex v < int (length (imageIdGroups v))"
  then show "getImageIdsToLoad v
      = Inr (idsInOrder (imageIdGroups v)
               (expandingRing (length (imageIdGroups v)) (nat (timePointIndex v))))"
    by (simp add: getImageIdsToLoad_ring)
next
  assume five: "length (imageIdGroups v) = 5 \<and> timePointIndex v = 2"
  then have "getImageIdsToLoad v = Inr (idsInOrder (imageIdGroups v) (expandingRing 5 (nat 2)))"
    using getImageIdsToLoad_ring [of v] by simp
  then show "getImageIdsToLoad v = Inr (idsInOrder (imageIdGroups v) [2, 1, 3, 0, 4])"
    by (simp add: expandingRing_5_2)
qed

theorem getImageIdsToLoad_expanding_ring_witness:
  "getImageIdsToLoad
     ((newVolume ''v'' ''t'' [[''a0''], [''a1''], [''a2'', ''b2''], [''a3''], [''a4'']])
        \<lparr>timePointIndex := 2\<rparr>)
   = Inr [''a2'', ''b2'', ''a1'', ''a3'', ''a0'', ''a4'']"
  using getImageIdsToLoad_expanding_ring
    [THEN conjunct2,
     of "(newVolume ''v'' ''t'' [[''a0''], [''a1''], [''a2'', ''b2''], [''a3''], [''a4'']])
           \<lparr>timePointIndex := 2\<rparr>"]
  by (simp add: newVolume_def idsInOrder_def)

text \<open>
  C6. For every group count above 0, every current index in \<open>[0, groupCount)\<close> and
  every \<open>delta\<close>, \<open>scroll\<close> sets the index to \<open>groupCount - 1\<close> when
  \<open>currentIndex + delta < 0\<close>, to 0 when it is at least \<open>groupCount\<close>, and to
  \<open>currentIndex + delta\<close> otherwise; the new index is again in range. With four
  groups, scrolling by -1 from 0 gives 3 and scrolling by 1 from 3 gives 0.
\<close>

theorem scroll_wraparound:
  assumes "0 < numTimePoints v"
    and "0 \<le> timePointIndex v" and "timePointIndex v < numTimePoints v"
  shows "timePointIndex (scroll delta v)
         = (if timePointIndex v + delta < 0 then numTimePoints v - 1
            else if timePointIndex v + delta \<ge> numTimePoints v then 0
            else timePointIndex v + delta)
         \<and> 0 \<le> timePointIndex (scroll delta v)
         \<and> timePointIndex (scroll delta v) < numTimePoints v
         \<and> numTimePoints (scroll delta v) = numTimePoints v
         \<and> (numTimePoints v = 4 \<and> timePointIndex v = 0 \<longrightarrow>
              timePointIndex (scroll (- 1) v) = 3)
         \<and> (numTimePoints v = 4 \<and> timePointIndex v = 3 \<longrightarrow>
              timePointIndex (scroll 1 v) = 0)"
  using assms
  by (simp add: scroll_def setTimePointIndex_def invalidateVolume_def triggerEvent_def Let_def)

theorem scroll_wraparound_witness:
  "timePointIndex (scroll (- 1) (newVolume ''v'' ''t'' [[''a''], [''b''], [''c''], [''d'']])) = 3
   \<and> timePointIndex
       (scroll 1 ((newVolume ''v'' ''t'' [[''a''], [''b''], [''c''], [''d'']])
                    \<lparr>timePointIndex := 3\<rparr>)) = 0"
  using scroll_wraparound [of "newVolume ''v'' ''t'' [[''a''], [''b''], [''c''], [''d'']]" "- 1"]
    scroll_wraparound
      [of "(newVolume ''v'' ''t'' [[''a''], [''b''], [''c''], [''d'']])\<lparr>timePointIndex := 3\<rparr>" 1]
  by (simp add: newVolume_def)

text \<open>
  C7. Setting the index to its current value changes nothing: no event, the
  invalidation flag and every other field as before. Setting it to another value stores
  the value, marks the volume invalid and dispatches one event carrying the volume id,
  the new index, the group count and the splitting tag.
\<close>

theorem setTimePointIndex_effect:
  "setTimePointIndex (timePointIndex v) v = v
   \<and> (index \<noteq> timePointIndex v \<longrightarrow>
        timePointIndex (setTimePointIndex index v) = index
        \<and> invalidated (setTimePointIndex index v) = True
        \<and> dispatched (setTimePointIndex index v)
          = dispatched v @
            [DYNAMIC_VOLUME_TIME_POINT_INDEX_CHANGED
               \<lparr>detailVolumeId = volumeId v, imageIdGroupIndex = index,
                numImageIdGroups = numTimePoints v, detailSplittingTag = splittingTag v\<rparr>]
        \<and> numTimePoints (setTimePointIndex index v) = numTimePoints v
        \<and> imageIdGroups (setTimePointIndex index v) = imageIdGroups v)"
  by (auto simp add: setTimePointIndex_def invalidateVolume_def triggerEvent_def Let_def)

theorem setTimePointIndex_effect_witness:
  "setTimePointIndex 0 (newVolume ''v'' ''tag'' [[''a''], [''b'']])
     = newVolume ''v'' ''tag'' [[''a''], [''b'']]
   \<and> timePointIndex (setTimePointIndex 1 (newVolume ''v'' ''tag'' [[''a''], [''b'']])) = 1
   \<and> invalidated (setTimePointIndex 1 (newVolume ''v'' ''tag'' [[''a''], [''b'']]))
   \<and> dispatched (setTimePointIndex 1 (newVolume ''v'' ''tag'' [[''a''], [''b'']]))
     = [DYNAMIC_VOLUME_TIME_POINT_INDEX_CHANGED
          \<lparr>detailVolumeId = ''v'', imageIdGroupIndex = 1, numImageIdGroups = 2,
           detailSplittingTag = ''tag''\<rparr>]"
  using setTimePointIndex_effect [of "newVolume ''v'' ''tag'' [[''a''], [''b'']]" 1]
  by (simp add: newVolume_def)

section \<open>Properties of the image loader\<close>

subsection \<open>The scheme of an image id\<close>

lemma indexOf_notin: "c \<notin> set s \<Longrightarrow> indexOf s c = - 1"
  by (induction s) (auto simp: Let_def)

lemma indexOf_takeWhile:
  "c \<in> set s \<Longrightarrow> indexOf s c = int (length (takeWhile (\<lambda>x. x \<noteq> c) s))"
  by (induction s) (auto simp: Let_def indexOf_notin)

lemma schemeOf_colon:
  "CHR '':'' \<in> set iid \<Longrightarrow> schemeOf iid = takeWhile (\<lambda>x. x \<noteq> CHR '':'') iid"
proof -
  assume a: "CHR '':'' \<in> set iid"
  let ?n = "length (takeWhile (\<lambda>x. x \<noteq> CHR '':'') iid)"
  have le: "?n \<le> length iid" by (rule length_takeWhile_le)
  have "take ?n iid = takeWhile (\<lambda>x. x \<noteq> CHR '':'') iid"
    by (metis takeWhile_eq_take)
  then show ?thesis
    using le by (simp add: schemeOf_def substring_def clampIndex_def indexOf_takeWhile [OF a] Let_def)
qed

lemma schemeOf_no_colon: "CHR '':'' \<notin> set iid \<Longrightarrow> schemeOf iid = []"
  by (simp add: schemeOf_def substring_def clampIndex_def indexOf_notin Let_def)

lemma schemeOf_wadors: "schemeOf ''wadors:1'' = ''wadors''"
  by (simp add: schemeOf_def substring_def clampIndex_def Let_def)

subsection \<open>Input validation\<close>

text \<open>
  C10. \<open>loadImage\<close> and \<open>loadAndCacheImage\<close> throw at once when the image id is
  undefined, \<open>loadAndCacheImages\<close> when the list is missing or empty; the world is
  returned as it was, so no loader was called and the cache is unchanged.
\<close>

theorem loaders_validate_input:
  "loadImage None options w
     = (Inl (Error ''loadImage: parameter imageId must not be undefined''), w)
   \<and> loadAndCacheImage None options w
     = (Inl (Error ''loadAndCacheImage: parameter imageId must not be undefined''), w)
   \<and> loadAndCacheImages None options w
     = (Inl (Error ''loadAndCacheImages: parameter imageIds must be list of image Ids''), w)
   \<and> loadAndCacheImages (Some []) options w
     = (Inl (Error ''loadAndCacheImages: parameter imageIds must be list of image Ids''), w)"
  by (simp add: loadImage_def loadAndCacheImage_def loadAndCacheImages_def)

subsection \<open>Resolution of the loader\<close>

lemma schemeOf_constructor: "schemeOf ''constructor:1'' = ''constructor''"
  by (simp add: schemeOf_def substring_def clampIndex_def Let_def)

lemma lookupLoader_wadors: "lookupLoader ''wadors'' wadorsWorld = Some (Loader plainLoader)"
  by (simp add: lookupLoader_def wadorsWorld_def registerImageLoader_def)

lemma resolve_wadors: "resolve ''wadors:1'' wadorsWorld = Some plainLoader"
  by (simp add: resolve_def schemeOf_wadors lookupLoader_wadors)

text \<open>
  What \<open>loadImageFromImageLoader\<close> does, by what \<open>imageLoaders[scheme]\<close> reads: a
  loader is called with the id and the options; when nothing is read, the unknown-image
  loader is called with the id alone, and without one the error is thrown, which
  \<open>loadImage\<close> and \<open>loadAndCacheImage\<close> pass on; a value that is no loader raises
  its error, whether or not there is an unknown-image loader.
\<close>

lemma loadImageFromImageLoader_cases:
  "(CHR '':'' \<in> set iid \<longrightarrow> schemeOf iid = takeWhile (\<lambda>c. c \<noteq> CHR '':'') iid)
   \<and> (lookupLoader (schemeOf iid) w = Some (Loader handler) \<longrightarrow>
        loadImageFromImageLoader iid options w
        = (Inr (fst (callLoader handler iid (Some options) w)),
           (snd (callLoader handler iid (Some options) w))
             \<lparr>reactions := reactions w @ [(length (promises w), LoaderHandlers iid)]\<rparr>))
   \<and> (lookupLoader (schemeOf iid) w = None \<and> unknownImageLoader w = Some fallback \<longrightarrow>
        loadImageFromImageLoader iid options w
        = (Inr (fst (callLoader fallback iid None w)), snd (callLoader fallback iid None w)))
   \<and> (lookupLoader (schemeOf iid) w = None \<and> unknownImageLoader w = None \<longrightarrow>
        loadImageFromImageLoader iid options w
        = (Inl (Error ''loadImageFromImageLoader: no image loader for imageId''), w)
        \<and> loadImage (Some iid) callerOptions w
          = (Inl (Error ''loadImageFromImageLoader: no image loader for imageId''), w)
        \<and> loadAndCacheImage (Some iid) callerOptions w
          = (Inl (Error ''loadImageFromImageLoader: no image loader for imageId''), w))
   \<and> (lookupLoader (schemeOf iid) w = Some (NotALoader e) \<longrightarrow>
        loadImageFromImageLoader iid options w = (Inl e, w)
        \<and> loadImage (Some iid) callerOptions w = (Inl e, w)
        \<and> loadAndCacheImage (Some iid) callerOptions w = (Inl e, w))"
  by (auto simp add: schemeOf_colon loadImageFromImageLoader_def loadImage_def
      loadAndCacheImage_def callLoader_def Let_def)

lemma loadImageFromImageLoader_registered:
  "fst (loadImageFromImageLoader ''wadors:1'' defaultOptions wadorsWorld)
     = Inr \<lparr>promise = 0, cancelFn = None, cancel = None\<rparr>
   \<and> fetches (snd (loadImageFromImageLoader ''wadors:1'' defaultOptions wadorsWorld))
     = [(''wadors'', ''wadors:1'', Some defaultOptions)]
   \<and> fetches (snd (loadImageFromImageLoader ''wadors:1'' defaultOptions fallbackWorld))
     = [(''fallback'', ''wadors:1'', None)]
   \<and> fst (loadImage (Some ''wadors:1'') None emptyWorld)
     = Inl (Error ''loadImageFromImageLoader: no image loader for imageId'')"
  by (simp add: loadImage_def loadImageFromImageLoader_def schemeOf_wadors lookupLoader_def
      callLoader_def wadorsWorld_def plainLoader_def fallbackLoader_def fallbackWorld_def
      registerImageLoader_def registerUnknownImageLoader_def emptyWorld_def
      objectPrototype_def objectPrototypeNames_def Let_def)

text \<open>
  C9. The unknown-image loader is registered and no loader is registered under the
  scheme \<open>constructor\<close>. For the image id \<open>constructor:1\<close> the scheme is
  \<open>constructor\<close>, and \<open>imageLoaders[scheme]\<close> reads the function \<open>Object\<close>, which
  the plain object \<open>imageLoaders\<close> inherits: it is neither \<open>undefined\<close> nor
  \<open>null\<close>, so the unknown-image loader is not used (no fetch is started), and calling
  it as a loader ends in a TypeError. With no unknown-image loader either, the same
  TypeError is thrown, not the error that says that there is no image loader.
\<close>

theorem resolution_inherited_name:
  "schemeOf ''constructor:1'' = ''constructor''
   \<and> imageLoaders fallbackWorld ''constructor'' = None
   \<and> unknownImageLoader fallbackWorld = Some fallbackLoader
   \<and> fst (loadImage (Some ''constructor:1'') None fallbackWorld) = Inl TypeError
   \<and> fetches (snd (loadImage (Some ''constructor:1'') None fallbackWorld)) = []
   \<and> fst (loadAndCacheImage (Some ''constructor:1'') None fallbackWorld) = Inl TypeError
   \<and> unknownImageLoader emptyWorld = None
   \<and> fst (loadImage (Some ''constructor:1'') None emptyWorld) = Inl TypeError"
  by (simp add: loadImage_def loadAndCacheImage_def loadImageFromImageLoader_def
      schemeOf_constructor lookupLoader_def fallbackWorld_def registerUnknownImageLoader_def
      emptyWorld_def objectPrototype_def objectPrototypeNames_def Let_def)

subsection \<open>Loading and caching\<close>

lemma loadAndCacheImage_step:
  assumes "resolve iid w = Some loader"
  shows "fst (loadAndCacheImage (Some iid) options w) = Inr (length (promises w))"
    and "fst (loadAndCacheImage (Some iid) options w)
         = map_sum id promise (fst (loadImageFromImageLoader iid (orDefault options) w))"
    and "fetchCount iid (snd (loadAndCacheImage (Some iid) options w)) = Suc (fetchCount iid w)"
    and "imageCache (snd (loadAndCacheImage (Some iid) options w)) iid
         = (case imageCache w iid of
              None \<Rightarrow> Some (Handle \<lparr>promise = length (promises w),
                                     cancelFn = suppliedCancelFn loader,
                                     cancel = suppliedCancel loader\<rparr>)
            | Some entry \<Rightarrow> Some entry)"
    and "resolve iid (snd (loadAndCacheImage (Some iid) options w)) = Some loader"
  using assms
  by (auto simp add: resolve_def lookupLoader_def loadAndCacheImage_def
      loadImageFromImageLoader_def callLoader_def getImageLoadObject_def
      putImageLoadObject_def fetchCount_def Let_def
      split: option.splits found.splits)

text \<open>
  C1, as the code has it. For an image id for which \<open>loadImageFromImageLoader\<close> reaches
  a loader, \<open>loadAndCacheImage\<close> calls that loader on every call, whether or not the
  cache holds an entry for the id: the fetch count of the id grows by one, and the caller
  gets the promise of the load object that this call of the loader returned. The load
  object is put into the cache only when the cache holds no entry; an existing entry
  stays. Two calls in a row therefore start two fetches, and the cache keeps the entry it
  had after the first call.
\<close>

theorem loadAndCacheImage_fetches_on_every_call:
  assumes "resolve iid w = Some loader"
  shows "let first = loadAndCacheImage (Some iid) options w;
             second = loadAndCacheImage (Some iid) options (snd first)
         in \<not> isl (fst first)
            \<and> fst first
              = map_sum id promise (fst (loadImageFromImageLoader iid (orDefault options) w))
            \<and> fetchCount iid (snd first) = fetchCount iid w + 1
            \<and> imageCache (snd first) iid
              = (case imageCache w iid of
                   None \<Rightarrow> Some (Handle \<lparr>promise = length (promises w),
                                          cancelFn = suppliedCancelFn loader,
                                          cancel = suppliedCancel loader\<rparr>)
                 | Some entry \<Rightarrow> Some entry)
            \<and> \<not> isl (fst second)
            \<and> fst second
              = map_sum id promise
                  (fst (loadImageFromImageLoader iid (orDefault options) (snd first)))
            \<and> fetchCount iid (snd second) = fetchCount iid w + 2
            \<and> imageCache (snd second) iid = imageCache (snd first) iid"
proof -
  let ?first = "loadAndCacheImage (Some iid) options w"
  note one = loadAndCacheImage_step [OF assms, of options]
  note two = loadAndCacheImage_step [OF one(5), of options]
  have "imageCache (snd ?first) iid \<noteq> None"
    using one(4) by (simp split: option.splits)
  then have same: "imageCache (snd (loadAndCacheImage (Some iid) options (snd ?first))) iid
                   = imageCache (snd ?first) iid"
    using two(4) by (auto split: option.splits)
  have r1: "\<not> isl (fst ?first)" using one(1) by simp
  have r2: "\<not> isl (fst (loadAndCacheImage (Some iid) options (snd ?first)))"
    using two(1) by simp
  show ?thesis
    using r1 r2 same one(2,3,4) two(2,3) by (simp add: Let_def)
qed

theorem loadAndCacheImage_fetches_on_every_call_witness:
  "resolve ''wadors:1'' wadorsWorld = Some plainLoader
   \<and> (let first = loadAndCacheImage (Some ''wadors:1'') None wadorsWorld;
           second = loadAndCacheImage (Some ''wadors:1'') None (snd first)
       in \<not> isl (fst first)
          \<and> fetchCount ''wadors:1'' (snd first) = 1
          \<and> imageCache (snd first) ''wadors:1''
            = Some (Handle \<lparr>promise = 0, cancelFn = None, cancel = None\<rparr>)
          \<and> \<not> isl (fst second)
          \<and> fetchCount ''wadors:1'' (snd second) = 2
          \<and> imageCache (snd second) ''wadors:1'' = imageCache (snd first) ''wadors:1'')"
proof -
  have start: "promises wadorsWorld = [] \<and> fetchCount ''wadors:1'' wadorsWorld = 0
               \<and> imageCache wadorsWorld ''wadors:1'' = None"
    by (simp add: wadorsWorld_def registerImageLoader_def emptyWorld_def fetchCount_def)
  have hooks: "suppliedCancelFn plainLoader = None \<and> suppliedCancel plainLoader = None"
    by (simp add: plainLoader_def)
  show ?thesis
    using resolve_wadors loadAndCacheImage_fetches_on_every_call [OF resolve_wadors, of None]
      start hooks
    by (auto simp add: Let_def)
qed

text \<open>
  The claim C1 as stated fails: two calls of \<open>loadAndCacheImage\<close> for one id, the
  second before the first has resolved, call the loader twice.
\<close>

theorem loadAndCacheImage_fetches_twice:
  "fetchCount ''wadors:1''
     (snd (loadAndCacheImage (Some ''wadors:1'') None
        (snd (loadAndCacheImage (Some ''wadors:1'') None wadorsWorld)))) = 2
   \<and> fetches
       (snd (loadAndCacheImage (Some ''wadors:1'') None
          (snd (loadAndCacheImage (Some ''wadors:1'') None wadorsWorld))))
     = [(''wadors'', ''wadors:1'', Some defaultOptions),
        (''wadors'', ''wadors:1'', Some defaultOptions)]
   \<and> promises (snd (loadAndCacheImage (Some ''wadors:1'') None wadorsWorld)) = [Pending]"
  by (simp add: wadorsWorld_def plainLoader_def registerImageLoader_def emptyWorld_def
      loadAndCacheImage_def loadImageFromImageLoader_def schemeOf_wadors lookupLoader_def
      callLoader_def getImageLoadObject_def putImageLoadObject_def fetchCount_def
      orDefault_def Let_def)

subsection \<open>A failed fetch\<close>





subsection \<open>Cancelling one image\<close>

text \<open>
  C5. The fetch for \<open>wadors:1\<close> is in flight and its load object, in the cache, has no
  \<open>cancelFn\<close>: the loader supplied none. \<open>cancelLoadImage\<close> calls it all the same
  and ends with a TypeError.
\<close>

theorem cancelLoadImage_without_cancelFn:
  "imageCache (snd (loadAndCacheImage (Some ''wadors:1'') None wadorsWorld)) ''wadors:1''
     = Some (Handle \<lparr>promise = 0, cancelFn = None, cancel = None\<rparr>)
   \<and> promises (snd (loadAndCacheImage (Some ''wadors:1'') None wadorsWorld)) = [Pending]
   \<and> fst (cancelLoadImage ''wadors:1''
            (snd (loadAndCacheImage (Some ''wadors:1'') None wadorsWorld))) = Inl TypeError"
  by (simp add: wadorsWorld_def plainLoader_def registerImageLoader_def emptyWorld_def
      loadAndCacheImage_def loadImageFromImageLoader_def schemeOf_wadors lookupLoader_def
      callLoader_def
      getImageLoadObject_def putImageLoadObject_def orDefault_def Let_def
      cancelLoadImage_def filterRequests_def callHook_def)

subsection \<open>Cancelling everything\<close>

lemma keeps_refl: "keeps w w"
  by (simp add: keeps_def)

lemma keeps_trans: "keeps w w1 \<Longrightarrow> keeps w1 w2 \<Longrightarrow> keeps w w2"
  by (auto simp add: keeps_def)

lemma keeps_setQueue: "keeps w (setQueue type prio queue w)"
  by (auto simp add: keeps_def setQueue_def emptiedTypes_def split: if_splits)

lemma keeps_callHook: "keeps w (snd (callHook h w))"
  by (auto simp add: keeps_def callHook_def emptiedTypes_def split: option.splits)

lemma keeps_clearRequestStack: "keeps w (clearRequestStack type w)"
  by (auto simp add: keeps_def clearRequestStack_def emptiedTypes_def split: if_splits)

lemma emptied_clearRequestStack: "type \<in> emptiedTypes (clearRequestStack type w)"
  by (auto simp add: clearRequestStack_def emptiedTypes_def split: if_splits)

lemma keeps_popRequest: "keeps w (snd (popRequest type prio w))"
  by (auto simp add: popRequest_def keeps_refl keeps_setQueue split: option.splits)

lemma keeps_cancelOnePriority: "keeps w (snd (cancelOnePriority type prio w))"
proof -
  obtain r w1 where p: "popRequest type prio w = (r, w1)" by (cases "popRequest type prio w")
  then have k1: "keeps w w1" using keeps_popRequest [of w type prio] by simp
  show ?thesis
    using p k1 keeps_callHook [of w1]
    by (auto simp add: cancelOnePriority_def split: sum.splits option.splits
        intro: keeps_trans)
qed

lemma keeps_cancelPriorities: "keeps w (snd (cancelPriorities type prios w))"
proof (induction prios arbitrary: w)
  case Nil
  then show ?case by (simp add: keeps_refl)
next
  case (Cons prio prios)
  obtain r w1 where c: "cancelOnePriority type prio w = (r, w1)"
    by (cases "cancelOnePriority type prio w")
  then have k1: "keeps w w1" using keeps_cancelOnePriority [of w type prio] by simp
  show ?case
    using c k1 Cons.IH [of w1]
    by (auto split: sum.splits intro: keeps_trans)
qed

lemma cancelTypes_emptied:
  "cancelTypes types w = (Inr (), w') \<Longrightarrow> keeps w w' \<and> set types \<subseteq> emptiedTypes w'"
proof (induction types arbitrary: w)
  case Nil
  then show ?case by (simp add: keeps_refl)
next
  case (Cons type types)
  obtain r w1 where c: "cancelPriorities type (prioritiesOf type w) w = (r, w1)"
    by (cases "cancelPriorities type (prioritiesOf type w) w")
  then have k1: "keeps w w1"
    using keeps_cancelPriorities [of w type "prioritiesOf type w"] by simp
  from Cons.prems c have rest: "cancelTypes types (clearRequestStack type w1) = (Inr (), w')"
    by (auto split: sum.splits)
  from Cons.IH [OF rest]
  have k3: "keeps (clearRequestStack type w1) w'" and e: "set types \<subseteq> emptiedTypes w'"
    by simp_all
  have "type \<in> emptiedTypes w'"
    using emptied_clearRequestStack [of type w1] k3 by (auto simp add: keeps_def)
  moreover have "keeps w w'"
    using k1 keeps_clearRequestStack [of w1 type] k3 by (blast intro: keeps_trans)
  ultimately show ?case using e by simp
qed

lemma all_emptied_queued:
  assumes "set (map fst (requestPool w)) \<subseteq> emptiedTypes w"
  shows "queuedRequests w = []" and "queuedOfType type w = []"
proof -
  have "\<And>t requests. (t, requests) \<in> set (requestPool w) \<Longrightarrow> requests = []"
    using assms by (force simp add: emptiedTypes_def)
  then have empty: "\<forall>entry \<in> set (requestPool w). snd entry = []"
    by auto
  show "queuedRequests w = []"
    using empty by (auto simp add: queuedRequests_def split: prod.splits)
  show "queuedOfType type w = []"
    using empty by (auto simp add: queuedOfType_def split: prod.splits)
qed

text \<open>
  Whenever \<open>cancelLoadAll\<close> returns, no request is queued any more, in any request
  type, and the cache and the promises are as before.
\<close>

lemma cancelLoadAll_completed:
  assumes "cancelLoadAll w = (Inr (), w')"
  shows "queuedRequests w' = [] \<and> queuedOfType type w' = []
         \<and> imageCache w' = imageCache w \<and> promises w' = promises w"
proof -
  from assms have "cancelTypes (map fst (requestPool w)) w = (Inr (), w')"
    by (simp add: cancelLoadAll_def getRequestPool_def)
  from cancelTypes_emptied [OF this]
  have k: "keeps w w'" and e: "set (map fst (requestPool w)) \<subseteq> emptiedTypes w'"
    by simp_all
  from k have "map fst (requestPool w') = map fst (requestPool w)"
    by (simp add: keeps_def)
  with e have "set (map fst (requestPool w')) \<subseteq> emptiedTypes w'" by simp
  from all_emptied_queued [OF this] k show ?thesis
    by (simp add: keeps_def)
qed

text \<open>
  It does not return when a priority it visits has an empty queue: \<open>pop()\<close> gives
  \<open>undefined\<close>, reading \<open>additionalDetails\<close> of it raises a TypeError, and the
  three requests of type \<open>prefetch\<close> stay queued.
\<close>

lemma cancelLoadAll_empty_queue:
  "fst (cancelLoadAll idleInteractionWorld) = Inl TypeError
   \<and> queuedOfType ''prefetch'' (snd (cancelLoadAll idleInteractionWorld))
     = [imageRequest ''wadors:1'', imageRequest ''wadors:2'', imageRequest ''wadors:3'']"
  by (simp add: idleInteractionWorld_def cancelLoadAll_def getRequestPool_def
      prioritiesOf_def cancelOnePriority_def popRequest_def queueOf_def emptyWorld_def
      queuedOfType_def)

text \<open>
  C4. Three requests of type \<open>prefetch\<close> are queued; the fetch of \<open>wadors:1\<close> is in
  flight, its load object is in the cache and has no \<open>cancel\<close> function, and the
  request popped names that image. \<open>cancelLoadAll\<close> calls \<open>loadObject.cancel()\<close>
  without testing that it exists: the call ends with a TypeError before
  \<open>clearRequestStack\<close> is reached, and two requests of type \<open>prefetch\<close> stay queued.
\<close>

theorem cancelLoadAll_without_cancel:
  "imageCache requestedWorld ''wadors:1''
     = Some (Handle \<lparr>promise = 0, cancelFn = None, cancel = None\<rparr>)
   \<and> promises requestedWorld = [Pending]
   \<and> queuedOfType ''prefetch'' requestedWorld
     = [imageRequest ''wadors:2'', imageRequest ''wadors:3'', imageRequest ''wadors:1'']
   \<and> fst (cancelLoadAll requestedWorld) = Inl TypeError
   \<and> queuedOfType ''prefetch'' (snd (cancelLoadAll requestedWorld))
     = [imageRequest ''wadors:2'', imageRequest ''wadors:3'']"
  by (simp add: requestedWorld_def wadorsWorld_def plainLoader_def registerImageLoader_def
      emptyWorld_def loadAndCacheImage_def loadImageFromImageLoader_def schemeOf_wadors
      lookupLoader_def callLoader_def getImageLoadObject_def putImageLoadObject_def
      orDefault_def Let_def cancelLoadAll_def getRequestPool_def prioritiesOf_def
      cancelOnePriority_def popRequest_def queueOf_def setQueue_def findLoadObject_def
      callHook_def queuedOfType_def imageRequest_def)

subsection \<open>Derived images\<close>

lemma schemeOf_derived: "schemeOf (''derived:'' @ uuid) = ''derived''"
  by (simp add: schemeOf_def substring_def clampIndex_def Let_def)

text \<open>
  C8, as the code has it. For a source image whose plane module the metadata provider
  knows, a buffer configuration of an accepted array type and no \<open>onCacheAdd\<close>
  callback, \<open>createAndCacheDerivedImage\<close> returns an image with the rows and columns
  of the source; its pixel data are a new typed array, at an address that held no array
  before, zero-filled, of \<open>rows * columns\<close> elements, or of one element when
  \<open>skipCreateBuffer\<close> is set; the image is in the cache under its id when the function
  returns, and no promise or handler is created. Its id is the \<open>imageId\<close> of the
  options when they carry one; otherwise it is \<open>derived:\<close> followed by the generated
  uuid, of scheme \<open>derived\<close>.
\<close>

theorem createAndCacheDerivedImage_frame:
  assumes "getImagePlaneModule referenced w = Some plane"
    and "getBufferConfiguration (targetBufferType options) (planeRows plane * planeColumns plane)
         = Inr config"
    and "acceptedScalarData (TypedArrayConstructor config)"
    and "onCacheAdd options = None"
  shows "case createAndCacheDerivedImage getBufferConfiguration uuid (Some referenced) options w of
           (Inl e, w') \<Rightarrow> False
         | (Inr img, w') \<Rightarrow>
             rows img = planeRows plane \<and> columns img = planeColumns plane
             \<and> pixelData img = Some (length (typedArrays w))
             \<and> typedArrayAt (length (typedArrays w)) w = None
             \<and> typedArrayAt (length (typedArrays w)) w'
               = Some \<lparr>kind = TypedArrayConstructor config,
                       elements =
                         replicate (if skipCreateBuffer options = Some True then 1
                                    else planeRows plane * planeColumns plane) 0\<rparr>
             \<and> imageId img
               = (case optionsImageId options of
                    None \<Rightarrow> ''derived:'' @ uuid
                  | Some given \<Rightarrow> given)
             \<and> (optionsImageId options = None \<longrightarrow> schemeOf (imageId img) = ''derived'')
             \<and> imageCache w' (imageId img) = Some (Frame img)
             \<and> promises w' = promises w \<and> reactions w' = reactions w"
  using assms
  by (auto simp add: createAndCacheDerivedImage_def createAndCacheLocalImage_def
      newTypedArray_def typedArrayAt_def finishLocalImage_def createImageVoxelManager_def
      putImageSync_def getImageLoadObject_def schemeOf_derived [simplified] Let_def
      getImagePlaneModule_def getGeneralSeriesModule_def getImagePixelModule_def
      addImagePlaneModule_def addGeneralSeriesModule_def addImagePixelModule_def
      split: option.splits)


theorem createAndCacheDerivedImage_frame_witness:
  "getImagePlaneModule ''wadors:frame1'' planeWorld = Some sourcePlane
   \<and> (case createAndCacheDerivedImage float32Configuration ''u1'' (Some ''wadors:frame1'')
              noOptions planeWorld of
         (Inl e, w') \<Rightarrow> False
       | (Inr img, w') \<Rightarrow>
           rows img = 2 \<and> columns img = 3 \<and> pixelData img = Some 0
           \<and> typedArrayAt 0 planeWorld = None
           \<and> typedArrayAt 0 w' = Some \<lparr>kind = Float32Array, elements = [0, 0, 0, 0, 0, 0]\<rparr>
           \<and> imageId img = ''derived:u1''
           \<and> schemeOf (imageId img) = ''derived''
           \<and> imageCache w' ''derived:u1'' = Some (Frame img)
           \<and> promises w' = [])"
proof -
  have plane: "getImagePlaneModule ''wadors:frame1'' planeWorld = Some sourcePlane"
    by (simp add: getImagePlaneModule_def planeWorld_def)
  have config: "float32Configuration (targetBufferType noOptions)
                  (planeRows sourcePlane * planeColumns sourcePlane)
                = Inr \<lparr>numBytes = 24, TypedArrayConstructor = Float32Array\<rparr>"
    by (simp add: float32Configuration_def sourcePlane_def)
  have accepted: "acceptedScalarData
                    (TypedArrayConstructor \<lparr>numBytes = 24, TypedArrayConstructor = Float32Array\<rparr>)"
    by simp
  have callback: "onCacheAdd noOptions = None"
    by (simp add: noOptions_def)
  have six: "replicate 6 (0::int) = [0, 0, 0, 0, 0, 0]"
    by (simp add: numeral_eq_Suc)
  show ?thesis
    using plane createAndCacheDerivedImage_frame
        [where getBufferConfiguration = float32Configuration and options = noOptions
           and uuid = "''u1''", OF plane config accepted callback]
    by (auto simp add: sourcePlane_def noOptions_def planeWorld_def emptyWorld_def six
        getImagePlaneModule_def split: prod.splits sum.splits)
qed

text \<open>
  The claim C8 as stated fails: when the options carry an image id, the derived image
  takes that id; here it is the id of the source image itself, of scheme \<open>wadors\<close>.
\<close>

theorem createAndCacheDerivedImage_given_id:
  "map_sum id imageId
     (fst (createAndCacheDerivedImage float32Configuration ''u1'' (Some ''wadors:frame1'')
             (noOptions\<lparr>optionsImageId := Some ''wadors:frame1''\<rparr>) planeWorld))
   = Inr ''wadors:frame1''
   \<and> schemeOf ''wadors:frame1'' = ''wadors''
   \<and> getImagePlaneModule ''wadors:frame1'' planeWorld \<noteq> None"
  by (simp add: createAndCacheDerivedImage_def createAndCacheLocalImage_def
      newTypedArray_def typedArrayAt_def finishLocalImage_def createImageVoxelManager_def
      putImageSync_def getImageLoadObject_def Let_def planeWorld_def emptyWorld_def
      sourcePlane_def noOptions_def float32Configuration_def
      getImagePlaneModule_def getGeneralSeriesModule_def getImagePixelModule_def
      addImagePlaneModule_def addGeneralSeriesModule_def addImagePixelModule_def
      schemeOf_def substring_def clampIndex_def)

end
